theory Spec2Isabelle
  imports Main "HOL-Library.AList"
begin

section \<open>JSON values as the handlers of main.py see them\<close>

text \<open>
  The handlers of \<^verbatim>\<open>main.py\<close> only shuttle the values that \<^verbatim>\<open>json.load\<close> and
  \<^verbatim>\<open>request.get_json\<close> produce. A Python float is a binary fraction (mantissa and
  exponent), an infinity or NaN; only its truth value and its type name matter here.
  A Python \<^verbatim>\<open>dict\<close> keeps insertion order and is an association list; a lookup reads
  the first binding of a key and \<^verbatim>\<open>d[k] = v\<close> is \<^const>\<open>AList.update\<close>: it replaces the
  binding in place, or appends a new one at the end. A string is its list of characters.
\<close>

datatype pyfloat = Finite int int | Infinite bool | NaN

datatype json =
    JNull
  | JBool bool
  | JInt int
  | JFloat pyfloat
  | JStr string
  | JList "json list"
  | JDict "(string \<times> json) list"

type_synonym dict = "(string \<times> json) list"

text \<open>\<^verbatim>\<open>raw.get(key, default)\<close>\<close>

definition dict_get :: "dict \<Rightarrow> string \<Rightarrow> json \<Rightarrow> json" where
  "dict_get d k dflt = (case map_of d k of None \<Rightarrow> dflt | Some v \<Rightarrow> v)"

text \<open>Python's truth value of a JSON value (\<^verbatim>\<open>not ai_data\<close>, \<^verbatim>\<open>data and ...\<close>).\<close>

fun float_nonzero :: "pyfloat \<Rightarrow> bool" where
  "float_nonzero (Finite m e) = (m \<noteq> 0)"
| "float_nonzero (Infinite s) = True"
| "float_nonzero NaN = True"

fun truthy :: "json \<Rightarrow> bool" where
  "truthy JNull = False"
| "truthy (JBool b) = b"
| "truthy (JInt i) = (i \<noteq> 0)"
| "truthy (JFloat f) = float_nonzero f"
| "truthy (JStr s) = (s \<noteq> [])"
| "truthy (JList xs) = (xs \<noteq> [])"
| "truthy (JDict d) = (d \<noteq> [])"

text \<open>The name Python prints for the type of a value.\<close>

fun type_name :: "json \<Rightarrow> string" where
  "type_name JNull = ''NoneType''"
| "type_name (JBool b) = ''bool''"
| "type_name (JInt i) = ''int''"
| "type_name (JFloat f) = ''float''"
| "type_name (JStr s) = ''str''"
| "type_name (JList xs) = ''list''"
| "type_name (JDict d) = ''dict''"

section \<open>format_ai_response (main.py, lines 25-45)\<close>

text \<open>
  A non-empty list is replaced by its last element (\<^verbatim>\<open>raw[-1]\<close>); anything that is then not
  a dict gives \<^verbatim>\<open>{}\<close>; a dict gives the five fields with their defaults. Nothing in the
  \<^verbatim>\<open>try\<close> block can raise on a JSON value, so the \<^verbatim>\<open>except\<close> branch (which also returns
  \<^verbatim>\<open>{}\<close>) is never taken.
\<close>

definition format_ai_response :: "json \<Rightarrow> json" where
  "format_ai_response raw0 =
    (let raw = (case raw0 of JList xs \<Rightarrow> (if length xs > 0 then last xs else raw0) | _ \<Rightarrow> raw0)
     in case raw of
          JDict d \<Rightarrow>
            JDict
              [(''predicted_condition'', dict_get d ''predicted_condition'' (JStr ''Analysis pending...'')),
               (''medication_alerts'', dict_get d ''medication_alerts'' (JList [])),
               (''home_remedies'', dict_get d ''home_remedies'' (JList [])),
               (''diet_plan'', dict_get d ''diet_plan'' (JList [])),
               (''youtube_videos'', dict_get d ''youtube_videos'' (JList []))]
        | _ \<Rightarrow> JDict [])"

section \<open>Exceptions, files and the world the handlers run in\<close>

text \<open>
  Every exception a handler can meet carries the text that \<^verbatim>\<open>str(e)\<close> gives, since the
  handlers put that text into their response bodies.
\<close>

datatype exn =
    TypeError string
  | KeyError string
  | IndexError string
  | FileNotFoundError string
  | JSONDecodeError string
  | OSError string
  | BadRequest string
  | RequestException string

fun str_exn :: "exn \<Rightarrow> string" where
  "str_exn (TypeError m) = m"
| "str_exn (KeyError m) = m"
| "str_exn (IndexError m) = m"
| "str_exn (FileNotFoundError m) = m"
| "str_exn (JSONDecodeError m) = m"
| "str_exn (OSError m) = m"
| "str_exn (BadRequest m) = m"
| "str_exn (RequestException m) = m"

definition quoted :: "string \<Rightarrow> string" where
  "quoted s = CHR 0x27 # s @ [CHR 0x27]"

text \<open>
  A file on disk, as \<^verbatim>\<open>open\<close> and \<^verbatim>\<open>json.load\<close> see it: absent; present with text
  that is not JSON (with the decoder's message); present but failing in \<^verbatim>\<open>open\<close> or in the
  read with any other exception, for instance a permission error (with its message); or
  holding the text of a JSON value. \<^verbatim>\<open>json.dump\<close> followed by \<^verbatim>\<open>json.load\<close> gives the
  value back, so a written file is the value written.
\<close>

datatype stored = Missing | Malformed string | Denied string | Content json

definition DATA_FILE :: string where
  "DATA_FILE = ''user_data.json''"

definition AI_RESPONSE_FILE :: string where
  "AI_RESPONSE_FILE = ''ai_recommendations.json''"

text \<open>\<^verbatim>\<open>with open(name, 'r') as f: json.load(f)\<close>\<close>

fun open_load :: "string \<Rightarrow> stored \<Rightarrow> exn + json" where
  "open_load name Missing =
     Inl (FileNotFoundError (''[Errno 2] No such file or directory: '' @ quoted name))"
| "open_load name (Malformed m) = Inl (JSONDecodeError m)"
| "open_load name (Denied m) = Inl (OSError m)"
| "open_load name (Content j) = Inr j"

text \<open>\<^verbatim>\<open>with open(name, 'w') as f: json.dump(value, f)\<close>: creates or overwrites the file.\<close>

fun open_dump :: "stored \<Rightarrow> json \<Rightarrow> exn + stored" where
  "open_dump (Denied m) j = Inl (OSError m)"
| "open_dump f j = Inr (Content j)"

text \<open>
  The world: the two files, and the bodies posted so far to the n8n webhook
  (one entry for each call of \<^verbatim>\<open>requests.post\<close>).
\<close>

record world =
  data_file :: stored
  ai_file :: stored
  webhook_log :: "json list"

text \<open>A Flask response: \<^verbatim>\<open>jsonify(body), status\<close>.\<close>

record response =
  status :: nat
  body :: json

text \<open>\<^verbatim>\<open>request.get_json()\<close>: the parsed body, or the exception Flask raises for a body
  it cannot parse.\<close>

datatype request_body = NoJson string | Json json

text \<open>
  What the outbound call meets: \<^verbatim>\<open>requests.post\<close> raises a \<^verbatim>\<open>RequestException\<close>
  (connection error, timeout, ...) with the given text, or it returns a response with a
  status code; the string is then the text of the \<^verbatim>\<open>HTTPError\<close> that
  \<^verbatim>\<open>raise_for_status\<close> builds for that response.
\<close>

datatype webhook_outcome = TransportError string | Responded nat string

text \<open>
  \<^verbatim>\<open>webhook_response.raise_for_status()\<close>: the requests library raises \<^verbatim>\<open>HTTPError\<close>
  (a \<^verbatim>\<open>RequestException\<close>) when \<^verbatim>\<open>400 <= status_code < 600\<close>, and returns otherwise.
\<close>

fun post_and_raise_for_status :: "webhook_outcome \<Rightarrow> exn + unit" where
  "post_and_raise_for_status (TransportError m) = Inl (RequestException m)"
| "post_and_raise_for_status (Responded code m) =
     (if 400 \<le> code \<and> code < 600 then Inl (RequestException m) else Inr ())"

text \<open>What one submission draws from its environment: the uuid, the two clock readings
  and the webhook's outcome.\<close>

record submit_env =
  uuid4 :: string
  now_first :: string
  now_second :: string
  hook :: webhook_outcome

section \<open>initialize_data_files (lines 19-23)\<close>

definition initialize_data_files :: "world \<Rightarrow> world" where
  "initialize_data_files w =
     w\<lparr>data_file := (if data_file w = Missing then Content (JList []) else data_file w),
       ai_file := (if ai_file w = Missing then Content (JDict []) else ai_file w)\<rparr>"

section \<open>POST /submit: save_and_trigger (lines 55-123)\<close>

text \<open>Lines 61-67: the three stamps, then the default for \<^verbatim>\<open>medications\<close>.\<close>

definition add_metadata :: "submit_env \<Rightarrow> dict \<Rightarrow> dict" where
  "add_metadata env d0 =
    (let d1 = AList.update ''user_id'' (JStr (uuid4 env)) d0;
         d2 = AList.update ''timestamp'' (JStr (now_first env)) d1;
         d3 = AList.update ''server_received_at'' (JStr (now_second env)) d2
     in case map_of d3 ''medications'' of
          None \<Rightarrow> AList.update ''medications'' (JList []) d3
        | Some m \<Rightarrow> d3)"

text \<open>\<^verbatim>\<open>new_user_data['user_id'] = ...\<close> on a value that is not a dict: the TypeError.\<close>

fun setitem_error :: "json \<Rightarrow> exn" where
  "setitem_error (JList xs) = TypeError ''list indices must be integers or slices, not str''"
| "setitem_error j = TypeError (quoted (type_name j) @ '' object does not support item assignment'')"

text \<open>
  Lines 70-79: the current list. A missing file and a file that is not JSON give the empty
  list, and so does JSON that is not a list; any other exception leaves the inner
  \<^verbatim>\<open>try\<close> blocks.
\<close>

definition load_intake :: "stored \<Rightarrow> exn + json list" where
  "load_intake f =
    (case open_load DATA_FILE f of
       Inr (JList xs) \<Rightarrow> Inr xs
     | Inr j \<Rightarrow> Inr []
     | Inl (JSONDecodeError m) \<Rightarrow> Inr []
     | Inl (FileNotFoundError m) \<Rightarrow> Inr []
     | Inl e \<Rightarrow> Inl e)"

text \<open>
  The body of the outer \<^verbatim>\<open>try\<close>: the response, or the exception that leaves it, together
  with the world as the statement that raised left it.
\<close>

fun save_and_trigger_try :: "request_body \<Rightarrow> submit_env \<Rightarrow> world \<Rightarrow> (exn + response) \<times> world" where
  "save_and_trigger_try (NoJson m) env w = (Inl (BadRequest m), w)"
| "save_and_trigger_try (Json (JDict d0)) env w =
    (let new_user_data = add_metadata env d0 in
     case load_intake (data_file w) of
       Inl e \<Rightarrow> (Inl e, w)
     | Inr data \<Rightarrow>
        (case open_dump (data_file w) (JList (data @ [JDict new_user_data])) of
           Inl e \<Rightarrow> (Inl e, w)
         | Inr f \<Rightarrow>
            (let w1 = w\<lparr>data_file := f\<rparr> in
             case map_of new_user_data ''user_id'' of
               None \<Rightarrow> (Inl (KeyError (quoted ''user_id'')), w1)
             | Some user_id \<Rightarrow>
                (case open_dump (ai_file w1) (JDict []) of
                   Inl e \<Rightarrow> (Inl e, w1)
                 | Inr g \<Rightarrow>
                    (let w2 = w1\<lparr>ai_file := g,
                                  webhook_log := webhook_log w1 @ [JDict new_user_data]\<rparr> in
                     case post_and_raise_for_status (hook env) of
                       Inr u \<Rightarrow>
                         (Inr \<lparr>status = 200,
                               body = JDict [(''success'', JBool True),
                                             (''message'', JStr ''Data saved and AI analysis triggered''),
                                             (''user_id'', user_id)]\<rparr>, w2)
                     | Inl e \<Rightarrow>
                         (Inr \<lparr>status = 202,
                               body = JDict [(''success'', JBool True),
                                             (''message'', JStr ''Data saved but AI analysis failed to trigger''),
                                             (''error'', JStr (str_exn e))]\<rparr>, w2))))))"
| "save_and_trigger_try (Json j) env w = (Inl (setitem_error j), w)"

text \<open>Lines 117-123: any exception becomes the 500 response.\<close>

definition save_and_trigger :: "request_body \<Rightarrow> submit_env \<Rightarrow> world \<Rightarrow> response \<times> world" where
  "save_and_trigger b env w =
    (case save_and_trigger_try b env w of
       (Inr r, w') \<Rightarrow> (r, w')
     | (Inl e, w') \<Rightarrow>
         (\<lparr>status = 500,
           body = JDict [(''success'', JBool False),
                         (''error'', JStr ''Failed to process submission''),
                         (''details'', JStr (str_exn e))]\<rparr>, w'))"

section \<open>GET /get-ai-response and its alias (lines 125-156)\<close>

definition get_ai_response :: "world \<Rightarrow> response" where
  "get_ai_response w =
    (case open_load AI_RESPONSE_FILE (ai_file w) of
       Inr ai_data \<Rightarrow>
         if \<not> truthy ai_data \<or> (case ai_data of JDict d \<Rightarrow> length d = 0 | _ \<Rightarrow> False)
         then \<lparr>status = 200, body = JDict []\<rparr>
         else \<lparr>status = 200, body = format_ai_response ai_data\<rparr>
     | Inl (FileNotFoundError m) \<Rightarrow> \<lparr>status = 200, body = JDict []\<rparr>
     | Inl (JSONDecodeError m) \<Rightarrow> \<lparr>status = 200, body = JDict []\<rparr>
     | Inl e \<Rightarrow> \<lparr>status = 500, body = JDict [(''error'', JStr ''Could not load AI response'')]\<rparr>)"

definition get_recommendations :: "world \<Rightarrow> response" where
  "get_recommendations w = get_ai_response w"

section \<open>POST /save-ai-response (lines 159-173)\<close>

definition save_ai_response :: "request_body \<Rightarrow> world \<Rightarrow> response \<times> world" where
  "save_ai_response b w =
    (case b of
       NoJson m \<Rightarrow>
         (\<lparr>status = 500, body = JDict [(''success'', JBool False), (''error'', JStr m)]\<rparr>, w)
     | Json ai_response \<Rightarrow>
        (case open_dump (ai_file w) ai_response of
           Inl e \<Rightarrow>
             (\<lparr>status = 500,
               body = JDict [(''success'', JBool False), (''error'', JStr (str_exn e))]\<rparr>, w)
         | Inr f \<Rightarrow>
             (\<lparr>status = 200,
               body = JDict [(''success'', JBool True), (''message'', JStr ''AI response saved'')]\<rparr>,
              w\<lparr>ai_file := f\<rparr>)))"

section \<open>The debug endpoints (lines 175-198)\<close>

text \<open>\<^verbatim>\<open>len(data)\<close> and \<^verbatim>\<open>data[-1]\<close> on a JSON value.\<close>

fun py_len :: "json \<Rightarrow> exn + nat" where
  "py_len (JStr s) = Inr (length s)"
| "py_len (JList xs) = Inr (length xs)"
| "py_len (JDict d) = Inr (length d)"
| "py_len j = Inl (TypeError (''object of type '' @ quoted (type_name j) @ '' has no len()''))"

fun getitem_last :: "json \<Rightarrow> exn + json" where
  "getitem_last (JList xs) =
     (if xs = [] then Inl (IndexError ''list index out of range'') else Inr (last xs))"
| "getitem_last (JStr s) =
     (if s = [] then Inl (IndexError ''string index out of range'') else Inr (JStr [last s]))"
| "getitem_last (JDict d) = Inl (KeyError ''-1'')"
| "getitem_last j = Inl (TypeError (quoted (type_name j) @ '' object is not subscriptable''))"

definition error_500 :: "exn \<Rightarrow> response" where
  "error_500 e = \<lparr>status = 500, body = JDict [(''error'', JStr (str_exn e))]\<rparr>"

definition get_latest_user :: "world \<Rightarrow> response" where
  "get_latest_user w =
    (case open_load DATA_FILE (data_file w) of
       Inl e \<Rightarrow> error_500 e
     | Inr data \<Rightarrow>
        if \<not> truthy data
        then \<lparr>status = 404, body = JDict [(''message'', JStr ''No user data found'')]\<rparr>
        else (case py_len data of
                Inl e \<Rightarrow> error_500 e
              | Inr n \<Rightarrow>
                 if n > 0
                 then (case getitem_last data of
                         Inl e \<Rightarrow> error_500 e
                       | Inr x \<Rightarrow> \<lparr>status = 200, body = x\<rparr>)
                 else \<lparr>status = 404, body = JDict [(''message'', JStr ''No user data found'')]\<rparr>))"

definition debug_ai_response :: "world \<Rightarrow> response" where
  "debug_ai_response w =
    (case open_load AI_RESPONSE_FILE (ai_file w) of
       Inl e \<Rightarrow> error_500 e
     | Inr data \<Rightarrow> \<lparr>status = 200, body = data\<rparr>)"

section \<open>Requests served one after the other\<close>




section \<open>Notions used to state the properties\<close>

text \<open>
  The value a response body binds to a key, when the body is a mapping that binds it.
\<close>

definition body_field :: "response \<Rightarrow> string \<Rightarrow> json option" where
  "body_field r k = (case body r of JDict d \<Rightarrow> map_of d k | _ \<Rightarrow> None)"







section \<open>Properties\<close>

subsection \<open>Evaluation of the handlers and auxiliary facts\<close>

lemmas eval_defs =
  save_and_trigger_def add_metadata_def load_intake_def Let_def body_field_def
  get_ai_response_def get_recommendations_def get_latest_user_def error_500_def
  format_ai_response_def dict_get_def DATA_FILE_def AI_RESPONSE_FILE_def quoted_def
  save_ai_response_def debug_ai_response_def








lemma submit_not_dict:
  assumes "\<forall>d. j \<noteq> JDict d"
  shows "save_and_trigger (Json j) env w =
         (\<lparr>status = 500,
           body = JDict [(''success'', JBool False),
                         (''error'', JStr ''Failed to process submission''),
                         (''details'', JStr (str_exn (setitem_error j)))]\<rparr>, w)"
  using assms by (cases j) (simp_all add: save_and_trigger_def)


















subsection \<open>The formatting step\<close>

text \<open>
  C1. Let \<open>v\<close> be the stored value, or its last element when it is a non-empty list. If \<open>v\<close> is
  not a mapping, \<^const>\<open>format_ai_response\<close> returns the empty mapping. If \<open>v\<close> is a mapping
  \<open>d\<close>, the result is a mapping whose keys are exactly the five field names, in this order;
  each field is the value \<open>d\<close> binds to it when there is one, and otherwise the placeholder
  string for \<^verbatim>\<open>predicted_condition\<close> and the empty list for the four list fields. Every
  other key of \<open>d\<close> is absent from the result.
\<close>

theorem format_ai_response_normalises:
  "(let v = (case raw of JList (x # xs) \<Rightarrow> last (x # xs) | _ \<Rightarrow> raw) in
     ((\<forall>d. v \<noteq> JDict d) \<longrightarrow> format_ai_response raw = JDict []) \<and>
     (\<forall>d. v = JDict d \<longrightarrow>
        (\<exists>r. format_ai_response raw = JDict r \<and>
             map fst r = [''predicted_condition'', ''medication_alerts'', ''home_remedies'',
                          ''diet_plan'', ''youtube_videos''] \<and>
             (\<forall>k \<in> set (map fst r). \<forall>x. map_of d k = Some x \<longrightarrow> map_of r k = Some x) \<and>
             (map_of d ''predicted_condition'' = None \<longrightarrow>
                map_of r ''predicted_condition'' = Some (JStr ''Analysis pending...'')) \<and>
             (\<forall>k \<in> {''medication_alerts'', ''home_remedies'', ''diet_plan'', ''youtube_videos''}.
                map_of d k = None \<longrightarrow> map_of r k = Some (JList [])) \<and>
             (\<forall>k. k \<notin> set (map fst r) \<longrightarrow> map_of r k = None))))"
proof -
  define v where "v = (case raw of JList (x # xs) \<Rightarrow> last (x # xs) | _ \<Rightarrow> raw)"
  have unwrap: "(case raw of JList xs \<Rightarrow> (if length xs > 0 then last xs else raw) | _ \<Rightarrow> raw) = v"
    unfolding v_def by (cases raw) (auto split: list.splits)
  have nondict: "format_ai_response raw = JDict []" if "\<forall>d. v \<noteq> JDict d"
    using that unfolding format_ai_response_def unwrap Let_def by (cases v) auto
  have isdict: "\<exists>r. format_ai_response raw = JDict r \<and>
             map fst r = [''predicted_condition'', ''medication_alerts'', ''home_remedies'',
                          ''diet_plan'', ''youtube_videos''] \<and>
             (\<forall>k \<in> set (map fst r). \<forall>x. map_of d k = Some x \<longrightarrow> map_of r k = Some x) \<and>
             (map_of d ''predicted_condition'' = None \<longrightarrow>
                map_of r ''predicted_condition'' = Some (JStr ''Analysis pending...'')) \<and>
             (\<forall>k \<in> {''medication_alerts'', ''home_remedies'', ''diet_plan'', ''youtube_videos''}.
                map_of d k = None \<longrightarrow> map_of r k = Some (JList [])) \<and>
             (\<forall>k. k \<notin> set (map fst r) \<longrightarrow> map_of r k = None)" if "v = JDict d" for d
    using that unfolding format_ai_response_def unwrap Let_def
    by (simp add: dict_get_def)
  show ?thesis
    using nondict isdict unfolding v_def [symmetric] Let_def by blast
qed

theorem format_ai_response_normalises_witness:
  "format_ai_response
     (JList [JInt 7, JDict [(''junk'', JBool True), (''predicted_condition'', JStr ''flu'')]])
   = JDict [(''predicted_condition'', JStr ''flu''), (''medication_alerts'', JList []),
            (''home_remedies'', JList []), (''diet_plan'', JList []), (''youtube_videos'', JList [])]
   \<and> format_ai_response (JList [JDict [(''diet_plan'', JList [])], JInt 7]) = JDict []"
  using format_ai_response_normalises
          [of "JList [JInt 7, JDict [(''junk'', JBool True), (''predicted_condition'', JStr ''flu'')]]"]
        format_ai_response_normalises [of "JList [JDict [(''diet_plan'', JList [])], JInt 7]"]
  by (simp add: format_ai_response_def dict_get_def)

subsection \<open>The user_id of a submission\<close>




subsection \<open>The result slot after a submission\<close>



subsection \<open>The latest user of an empty intake store\<close>

text \<open>
  C4, as the code has it. \<^verbatim>\<open>/debug/latest-user\<close> answers 404 with the message
  \<^verbatim>\<open>No user data found\<close> when the intake file holds the empty list (or any other JSON value
  that Python takes for false). When the file is missing or is not JSON, the handler's
  \<^verbatim>\<open>except Exception\<close> branch answers 500 with the text of the read failure.
\<close>

theorem latest_user_empty:
  "(data_file w = Content j \<and> \<not> truthy j \<longrightarrow>
      get_latest_user w = \<lparr>status = 404, body = JDict [(''message'', JStr ''No user data found'')]\<rparr>) \<and>
   (data_file w = Content (JList []) \<longrightarrow>
      get_latest_user w = \<lparr>status = 404, body = JDict [(''message'', JStr ''No user data found'')]\<rparr>) \<and>
   (data_file w = Missing \<longrightarrow>
      get_latest_user w =
        \<lparr>status = 500,
          body = JDict [(''error'', JStr (''[Errno 2] No such file or directory: '' @ quoted DATA_FILE))]\<rparr>) \<and>
   (data_file w = Malformed m \<longrightarrow>
      get_latest_user w = \<lparr>status = 500, body = JDict [(''error'', JStr m)]\<rparr>)"
  by (simp add: get_latest_user_def error_500_def)

theorem latest_user_empty_witness:
  "get_latest_user \<lparr>data_file = Content (JList []), ai_file = Missing, webhook_log = []\<rparr>
     = \<lparr>status = 404, body = JDict [(''message'', JStr ''No user data found'')]\<rparr>
   \<and> get_latest_user \<lparr>data_file = Content (JDict []), ai_file = Missing, webhook_log = []\<rparr>
     = \<lparr>status = 404, body = JDict [(''message'', JStr ''No user data found'')]\<rparr>
   \<and> status (get_latest_user \<lparr>data_file = Missing, ai_file = Missing, webhook_log = []\<rparr>) = 500
   \<and> get_latest_user \<lparr>data_file = Malformed ''Extra data'', ai_file = Missing, webhook_log = []\<rparr>
     = \<lparr>status = 500, body = JDict [(''error'', JStr ''Extra data'')]\<rparr>"
  using latest_user_empty [of "\<lparr>data_file = Content (JList []), ai_file = Missing, webhook_log = []\<rparr>" "JList []" "''x''"]
        latest_user_empty [of "\<lparr>data_file = Content (JDict []), ai_file = Missing, webhook_log = []\<rparr>" "JDict []" "''x''"]
        latest_user_empty [of "\<lparr>data_file = Missing, ai_file = Missing, webhook_log = []\<rparr>" "JNull" "''x''"]
        latest_user_empty [of "\<lparr>data_file = Malformed ''Extra data'', ai_file = Missing, webhook_log = []\<rparr>" "JNull" "''Extra data''"]
  by simp

text \<open>
  A missing intake file and a malformed one: both answers are 500, with the error text.
\<close>

theorem latest_user_empty_counterexample:
  "get_latest_user \<lparr>data_file = Missing, ai_file = Content (JDict []), webhook_log = []\<rparr>
     = \<lparr>status = 500,
        body = JDict [(''error'',
                 JStr (''[Errno 2] No such file or directory: '' @ [CHR 0x27] @ ''user_data.json'' @ [CHR 0x27]))]\<rparr>
   \<and> get_latest_user \<lparr>data_file = Malformed ''Expecting value: line 1 column 1 (char 0)'',
                        ai_file = Content (JDict []), webhook_log = []\<rparr>
     = \<lparr>status = 500, body = JDict [(''error'', JStr ''Expecting value: line 1 column 1 (char 0)'')]\<rparr>"
  by (simp add: eval_defs)

subsection \<open>A failing webhook\<close>




subsection \<open>The intake file after a sequence of requests\<close>



subsection \<open>The default for medications\<close>



subsection \<open>Reading a missing or malformed result slot\<close>

text \<open>
  C8. When the result-slot file is missing or is not JSON, \<^verbatim>\<open>/get-ai-response\<close> and its alias
  \<^verbatim>\<open>/get_recommendations\<close> answer \<^verbatim>\<open>{}\<close> with 200. The alias always answers as
  \<^verbatim>\<open>/get-ai-response\<close> does. The answer is 500 exactly when opening or reading the file
  fails in another way, and is 200 in every other case.
\<close>

theorem ai_response_read_failures:
  "((ai_file w = Missing \<or> (\<exists>m. ai_file w = Malformed m)) \<longrightarrow>
      get_ai_response w = \<lparr>status = 200, body = JDict []\<rparr> \<and>
      get_recommendations w = \<lparr>status = 200, body = JDict []\<rparr>) \<and>
   get_recommendations w = get_ai_response w \<and>
   (status (get_ai_response w) = 500 \<longleftrightarrow> (\<exists>m. ai_file w = Denied m)) \<and>
   (status (get_ai_response w) = 200 \<or> status (get_ai_response w) = 500)"
  by (cases "ai_file w") (auto simp: get_ai_response_def get_recommendations_def)

theorem ai_response_read_failures_witness:
  "get_ai_response \<lparr>data_file = Missing, ai_file = Missing, webhook_log = []\<rparr>
     = \<lparr>status = 200, body = JDict []\<rparr>
   \<and> get_recommendations \<lparr>data_file = Missing, ai_file = Malformed ''Expecting value'', webhook_log = []\<rparr>
     = \<lparr>status = 200, body = JDict []\<rparr>
   \<and> status (get_ai_response \<lparr>data_file = Missing, ai_file = Denied ''Permission denied'', webhook_log = []\<rparr>) = 500"
  using ai_response_read_failures [of "\<lparr>data_file = Missing, ai_file = Missing, webhook_log = []\<rparr>"]
        ai_response_read_failures [of "\<lparr>data_file = Missing, ai_file = Malformed ''Expecting value'', webhook_log = []\<rparr>"]
        ai_response_read_failures [of "\<lparr>data_file = Missing, ai_file = Denied ''Permission denied'', webhook_log = []\<rparr>"]
  by simp

subsection \<open>A submission that is not a mapping\<close>

text \<open>
  C9. When the JSON body of \<^verbatim>\<open>/submit\<close> is not a mapping, the answer is 500 with
  \<^verbatim>\<open>success: false\<close> and the text of the TypeError, and the intake file, the result-slot
  file and the webhook are left as they were.
\<close>

theorem submit_non_mapping_rejected:
  assumes "\<forall>d. j \<noteq> JDict d"
  shows "status (fst (save_and_trigger (Json j) env w)) = 500 \<and>
         body_field (fst (save_and_trigger (Json j) env w)) ''success'' = Some (JBool False) \<and>
         body (fst (save_and_trigger (Json j) env w)) =
           JDict [(''success'', JBool False),
                  (''error'', JStr ''Failed to process submission''),
                  (''details'', JStr (str_exn (setitem_error j)))] \<and>
         snd (save_and_trigger (Json j) env w) = w"
  using assms by (simp add: submit_not_dict body_field_def)

theorem submit_non_mapping_rejected_witness:
  "save_and_trigger (Json JNull)
     \<lparr>uuid4 = ''u-1'', now_first = ''t1'', now_second = ''t2'', hook = Responded 200 ''OK''\<rparr>
     \<lparr>data_file = Content (JList [JInt 1]), ai_file = Content (JDict [(''diet_plan'', JList [])]),
       webhook_log = []\<rparr>
   = (\<lparr>status = 500,
       body = JDict [(''success'', JBool False),
                     (''error'', JStr ''Failed to process submission''),
                     (''details'', JStr ([CHR 0x27] @ ''NoneType'' @ [CHR 0x27] @
                                          '' object does not support item assignment''))]\<rparr>,
      \<lparr>data_file = Content (JList [JInt 1]), ai_file = Content (JDict [(''diet_plan'', JList [])]),
       webhook_log = []\<rparr>)
   \<and> snd (save_and_trigger (Json (JList [JDict []]))
     \<lparr>uuid4 = ''u-1'', now_first = ''t1'', now_second = ''t2'', hook = Responded 200 ''OK''\<rparr>
     \<lparr>data_file = Content (JList [JInt 1]), ai_file = Content (JDict [(''diet_plan'', JList [])]),
       webhook_log = []\<rparr>)
     = \<lparr>data_file = Content (JList [JInt 1]), ai_file = Content (JDict [(''diet_plan'', JList [])]),
       webhook_log = []\<rparr>"
proof -
  have a: "\<forall>d. JNull \<noteq> JDict d" by simp
  have b: "\<forall>d. JList [JDict []] \<noteq> JDict d" by simp
  from submit_non_mapping_rejected [OF a] submit_non_mapping_rejected [OF b] show ?thesis
    by (simp add: prod_eq_iff quoted_def)
qed

subsection \<open>An intake file that holds JSON other than a list\<close>



end
